theory Spec2Isabelle
  imports Main
begin

section \<open>JavaScript values\<close>

text \<open>
  The classifier \<open>isVerificationText\<close> is untyped JavaScript: what it does depends on the
  truthiness of its arguments and on which of them are strings. The values a caller can
  pass are modelled by \<open>jsval\<close>. Numbers are integers (HTTP status codes); an object is the
  finite map of its own properties, and holds no function values. Strings are lists of
  8-bit characters; \<open>toLowerCase\<close> maps the ASCII capitals to their small letters and leaves
  every other character unchanged.
\<close>

datatype jsval =
    JUndefined
  | JNull
  | JBool bool
  | JNum int
  | JStr string
  | JObj "string \<Rightarrow> jsval option"

datatype error =
    TypeError
  | Thrown string

text \<open>Truthiness, as used by \<open>||\<close>, \<open>!\<close> and \<open>if\<close>.\<close>

fun truthy :: "jsval \<Rightarrow> bool" where
  "truthy JUndefined = False"
| "truthy JNull = False"
| "truthy (JBool b) = b"
| "truthy (JNum n) = (n \<noteq> 0)"
| "truthy (JStr s) = (s \<noteq> [])"
| "truthy (JObj m) = True"

text \<open>\<open>a || b\<close>: the left operand when it is truthy, the right one otherwise.\<close>

definition js_or :: "jsval \<Rightarrow> jsval \<Rightarrow> jsval" where
  "js_or a b = (if truthy a then a else b)"

text \<open>
  \<open>v[k]\<close> for the keys the program reads (\<open>server\<close>, \<open>cf-ray\<close>, \<open>cf-chl-bypass\<close>): reading a
  property of \<open>undefined\<close> or \<open>null\<close> throws a TypeError, an object yields its own property or
  \<open>undefined\<close>, and a boolean, number or string has no property of these names.
\<close>

fun get_prop :: "jsval \<Rightarrow> string \<Rightarrow> error + jsval" where
  "get_prop JUndefined k = Inl TypeError"
| "get_prop JNull k = Inl TypeError"
| "get_prop (JObj m) k = Inr (case m k of Some v \<Rightarrow> v | None \<Rightarrow> JUndefined)"
| "get_prop (JBool b) k = Inr JUndefined"
| "get_prop (JNum n) k = Inr JUndefined"
| "get_prop (JStr s) k = Inr JUndefined"

definition upper_letters :: string where
  "upper_letters = ''ABCDEFGHIJKLMNOPQRSTUVWXYZ''"

definition lower_letters :: string where
  "lower_letters = ''abcdefghijklmnopqrstuvwxyz''"

definition lower_char :: "char \<Rightarrow> char" where
  "lower_char c = (case map_of (zip upper_letters lower_letters) c of Some l \<Rightarrow> l | None \<Rightarrow> c)"

definition toLowerCase :: "string \<Rightarrow> string" where
  "toLowerCase s = map lower_char s"

text \<open>
  \<open>v.toLowerCase()\<close>: defined on strings only. On any other value that reaches the call the
  method is missing, and calling it throws a TypeError.
\<close>

fun js_toLowerCase :: "jsval \<Rightarrow> error + string" where
  "js_toLowerCase (JStr s) = Inr (toLowerCase s)"
| "js_toLowerCase JUndefined = Inl TypeError"
| "js_toLowerCase JNull = Inl TypeError"
| "js_toLowerCase (JBool b) = Inl TypeError"
| "js_toLowerCase (JNum n) = Inl TypeError"
| "js_toLowerCase (JObj m) = Inl TypeError"

text \<open>\<open>s.startsWith(p)\<close> and \<open>s.includes(p)\<close> on strings.\<close>

fun startsWith :: "string \<Rightarrow> string \<Rightarrow> bool" where
  "startsWith s [] = True"
| "startsWith [] (p # ps) = False"
| "startsWith (c # cs) (p # ps) = (c = p \<and> startsWith cs ps)"

fun str_includes :: "string \<Rightarrow> string \<Rightarrow> bool" where
  "str_includes [] p = (p = [])"
| "str_includes (c # cs) p = (startsWith (c # cs) p \<or> str_includes cs p)"

section \<open>The verification classifier\<close>

definition patterns :: "string list" where
  "patterns =
    [''attention required'',
     ''checking your browser'',
     ''verify you are human'',
     ''cf-browser-verification'',
     ''please enable javascript and cookies'',
     ''captcha'',
     ''are you a human'',
     ''hcaptcha'',
     ''recaptcha'',
     ''cloudflare'']"

text \<open>The loop \<open>for (const p of patterns) if (sample.includes(p)) return true\<close>.\<close>

fun match_any :: "string \<Rightarrow> string list \<Rightarrow> bool" where
  "match_any sample [] = False"
| "match_any sample (p # ps) = (if str_includes sample p then True else match_any sample ps)"

text \<open>
  The header hints, the last four statements of \<open>isVerificationText\<close>: the \<open>server\<close> value
  (or the empty string when it is falsy) is lower-cased and searched for \<open>cloudflare\<close>, then
  \<open>cf-ray\<close> and \<open>cf-chl-bypass\<close> are tested for truthiness, the second only when the first
  is falsy.
\<close>

definition header_hints :: "jsval \<Rightarrow> error + bool" where
  "header_hints headers =
    (case get_prop headers ''server'' of
       Inl e \<Rightarrow> Inl e
     | Inr sv \<Rightarrow>
        (case js_toLowerCase (js_or sv (JStr [])) of
           Inl e \<Rightarrow> Inl e
         | Inr server \<Rightarrow>
            if str_includes server ''cloudflare'' then Inr True
            else
              (case get_prop headers ''cf-ray'' of
                 Inl e \<Rightarrow> Inl e
               | Inr ray \<Rightarrow>
                  if truthy ray then Inr True
                  else
                    (case get_prop headers ''cf-chl-bypass'' of
                       Inl e \<Rightarrow> Inl e
                     | Inr bypass \<Rightarrow>
                        if truthy bypass then Inr True else Inr False))))"

text \<open>
  \<open>isVerificationText(text, status, headers)\<close>, statement by statement. The sample is
  computed first, before the status is looked at; the headers are read only when neither
  the status nor the text has decided. \<open>Inl\<close> is an exception that leaves the function.
\<close>

definition isVerificationText :: "jsval \<Rightarrow> jsval \<Rightarrow> jsval \<Rightarrow> error + bool" where
  "isVerificationText text status headers =
    (case js_toLowerCase (js_or text (JStr [])) of
       Inl e \<Rightarrow> Inl e
     | Inr sample \<Rightarrow>
        if status = JNum 403 \<or> status = JNum 503 then Inr True
        else if match_any sample patterns then Inr True
        else header_hints headers)"

text \<open>
  The inputs of the classifier's contract: a text that is a string or absent, and a header
  set that maps header names to strings.
\<close>

fun is_text :: "jsval \<Rightarrow> bool" where
  "is_text (JStr s) = True"
| "is_text JUndefined = True"
| "is_text JNull = True"
| "is_text (JBool b) = False"
| "is_text (JNum n) = False"
| "is_text (JObj m) = False"

definition headers_of :: "(string \<rightharpoonup> string) \<Rightarrow> jsval" where
  "headers_of m = JObj (\<lambda>k. map_option JStr (m k))"

definition nonempty_header :: "(string \<rightharpoonup> string) \<Rightarrow> string \<Rightarrow> bool" where
  "nonempty_header m k = (case m k of None \<Rightarrow> False | Some v \<Rightarrow> v \<noteq> [])"

text \<open>
  The disjunction in the words of the specification: the status is 403 or 503; the
  lower-cased text contains one of the fixed substrings; the \<open>server\<close> value contains
  \<open>cloudflare\<close> in any letter case; a \<open>cf-ray\<close> or \<open>cf-chl-bypass\<close> header is present.
\<close>

definition spec_disjunction :: "string \<Rightarrow> jsval \<Rightarrow> (string \<rightharpoonup> string) \<Rightarrow> bool" where
  "spec_disjunction t status m \<longleftrightarrow>
     (status = JNum 403 \<or> status = JNum 503)
   \<or> (\<exists>p \<in> set patterns. str_includes (toLowerCase t) p)
   \<or> (case m ''server'' of None \<Rightarrow> False | Some v \<Rightarrow> str_includes (toLowerCase v) ''cloudflare'')
   \<or> (m ''cf-ray'' \<noteq> None \<or> m ''cf-chl-bypass'' \<noteq> None)"

text \<open>
  The same disjunction with the fourth condition as the code tests it: a \<open>cf-ray\<close> or
  \<open>cf-chl-bypass\<close> header is present with a non-empty value.
\<close>

definition truthy_disjunction :: "string \<Rightarrow> jsval \<Rightarrow> (string \<rightharpoonup> string) \<Rightarrow> bool" where
  "truthy_disjunction t status m \<longleftrightarrow>
     (status = JNum 403 \<or> status = JNum 503)
   \<or> (\<exists>p \<in> set patterns. str_includes (toLowerCase t) p)
   \<or> (case m ''server'' of None \<Rightarrow> False | Some v \<Rightarrow> str_includes (toLowerCase v) ''cloudflare'')
   \<or> (nonempty_header m ''cf-ray'' \<or> nonempty_header m ''cf-chl-bypass'')"

section \<open>The browser collaborator and the fetch operation\<close>

text \<open>
  Playwright is outside the repository. Each awaited call is a field that yields a value or
  throws: opening a page (launch, context and page), \<open>page.goto\<close> with the target, the
  readiness condition and the timeout, \<open>page.waitForTimeout\<close>, \<open>page.content\<close>, the
  \<open>innerText\<close> of \<open>document.body\<close> (\<open>None\<close> when the document has no body),
  \<open>page.screenshot\<close> in base64, and \<open>browser.close\<close>.
\<close>

record response =
  resp_status :: int
  resp_headers :: "string \<rightharpoonup> string"

record playwright =
  pw_open :: "bool \<Rightarrow> error + unit"
  pw_goto :: "string \<Rightarrow> string \<Rightarrow> nat option \<Rightarrow> error + response option"
  pw_waitForTimeout :: "nat \<Rightarrow> error + unit"
  pw_content :: "error + string"
  pw_innerText :: "error + string option"
  pw_screenshot :: "error + string"
  pw_close :: "error + unit"

text \<open>\<open>await r\<close> followed by the rest of the function: a thrown error leaves it.\<close>

definition await :: "error + 'a \<Rightarrow> ('a \<Rightarrow> error + 'b) \<Rightarrow> error + 'b" where
  "await r k = (case r of Inl e \<Rightarrow> Inl e | Inr x \<Rightarrow> k x)"

record fetch_opts =
  opt_timeout :: "nat option"
  opt_headless :: "bool option"

record fetch_result =
  r_ok :: bool
  r_verification_required :: bool
  r_status :: "int option"
  r_headers :: "string \<rightharpoonup> string"
  r_html :: string
  r_textSample :: string
  r_screenshot :: string

definition DEFAULT_TIMEOUT :: nat where
  "DEFAULT_TIMEOUT = 20000"

text \<open>
  \<open>fetchWithPlaywright(target, opts)\<close>. The \<open>catch\<close> block closes the browser and throws the
  error again, so the caller sees the error of the first call that failed.
\<close>

definition fetchWithPlaywright :: "playwright \<Rightarrow> string \<Rightarrow> fetch_opts \<Rightarrow> error + fetch_result" where
  "fetchWithPlaywright pw target opts =
    (let timeout = (case opt_timeout opts of
                      None \<Rightarrow> DEFAULT_TIMEOUT
                    | Some n \<Rightarrow> if n = 0 then DEFAULT_TIMEOUT else n);
         headless = (case opt_headless opts of None \<Rightarrow> True | Some b \<Rightarrow> b)
     in
     await (pw_open pw headless) (\<lambda>_.
     await (pw_goto pw target ''networkidle'' (Some timeout)) (\<lambda>response.
       let status = (case response of None \<Rightarrow> None | Some r \<Rightarrow> Some (resp_status r));
           headers = (case response of None \<Rightarrow> Map.empty | Some r \<Rightarrow> resp_headers r)
       in
       await (pw_waitForTimeout pw 800) (\<lambda>_.
       await (pw_content pw) (\<lambda>html.
       await (pw_innerText pw) (\<lambda>body.
         let textSample = take 10000 (case body of None \<Rightarrow> [] | Some s \<Rightarrow> s) in
         await (isVerificationText (JStr textSample)
                  (case status of None \<Rightarrow> JNull | Some n \<Rightarrow> JNum n) (headers_of headers))
           (\<lambda>isVerification.
         await (pw_screenshot pw) (\<lambda>shot.
         await (pw_close pw) (\<lambda>_.
           Inr \<lparr> r_ok = \<not> isVerification,
                 r_verification_required = \<not> \<not> isVerification,
                 r_status = status,
                 r_headers = headers,
                 r_html = html,
                 r_textSample = textSample,
                 r_screenshot = shot \<rparr>)))))))))"

section \<open>The routes\<close>

text \<open>
  The \<open>url\<close> query parameter is absent or a string. The URL parser of the platform
  (\<open>new URL\<close>) is a parameter: it rejects its input or yields the protocol and the
  serialised URL. An absent parameter reaches the parser as the string \<open>undefined\<close>.
\<close>

record url =
  protocol :: string
  href :: string

definition normalizeTarget :: "(string \<Rightarrow> url option) \<Rightarrow> string option \<Rightarrow> string option" where
  "normalizeTarget parse raw =
    (case parse (case raw of None \<Rightarrow> ''undefined'' | Some s \<Rightarrow> s) of
       None \<Rightarrow> None
     | Some u \<Rightarrow>
        if \<not> (protocol u = ''http:'' \<or> protocol u = ''https:'') then None
        else Some (href u))"

datatype body =
    Text string
  | Html string
  | JsonError string
  | JsonVerification string string string
  | JsonSuccess "int option" "string \<rightharpoonup> string" string string

record http_response =
  code :: nat
  content :: body

fun err_toString :: "error \<Rightarrow> string" where
  "err_toString TypeError = ''TypeError''"
| "err_toString (Thrown msg) = msg"

text \<open>\<open>app.get("/index")\<close> of server.js.\<close>

definition route_index :: "playwright \<Rightarrow> string option \<Rightarrow> http_response" where
  "route_index pw targetUrl =
    (case targetUrl of
       None \<Rightarrow> \<lparr> code = 400, content = Text ''Missing ?url parameter'' \<rparr>
     | Some u \<Rightarrow>
        if u = [] then \<lparr> code = 400, content = Text ''Missing ?url parameter'' \<rparr>
        else
          (case await (pw_open pw True) (\<lambda>_.
                await (pw_goto pw u ''domcontentloaded'' (Some 60000)) (\<lambda>_.
                await (pw_waitForTimeout pw 8000) (\<lambda>_.
                await (pw_content pw) (\<lambda>html.
                await (pw_close pw) (\<lambda>_. Inr html))))) of
             Inr html \<Rightarrow> \<lparr> code = 200, content = Html html \<rparr>
           | Inl err \<Rightarrow> \<lparr> code = 500, content = Text (err_toString err) \<rparr>))"

text \<open>\<open>app.get("/")\<close> of the CommonJS variant: the reply to a missing \<open>url\<close> sets no status.\<close>

definition route_root :: "playwright \<Rightarrow> string option \<Rightarrow> http_response" where
  "route_root pw targetUrl =
    (case targetUrl of
       None \<Rightarrow> \<lparr> code = 200, content = Text ''Missing ?url parameter'' \<rparr>
     | Some u \<Rightarrow>
        if u = [] then \<lparr> code = 200, content = Text ''Missing ?url parameter'' \<rparr>
        else
          (case await (pw_open pw True) (\<lambda>_.
                await (pw_goto pw u ''domcontentloaded'' None) (\<lambda>_.
                await (pw_waitForTimeout pw 8000) (\<lambda>_.
                await (pw_content pw) (\<lambda>html.
                await (pw_close pw) (\<lambda>_. Inr html))))) of
             Inr html \<Rightarrow> \<lparr> code = 200, content = Html html \<rparr>
           | Inl err \<Rightarrow> \<lparr> code = 500, content = Text (err_toString err) \<rparr>))"

definition verification_message :: string where
  "verification_message = ''This site appears to require a browser verification (e.g., CAPTCHA/human check). Open the site in a normal browser and complete verification, then try again.''"

text \<open>\<open>app.get("/api/fetch.js")\<close>.\<close>

definition route_api_fetch ::
  "(string \<Rightarrow> url option) \<Rightarrow> playwright \<Rightarrow> string option \<Rightarrow> http_response" where
  "route_api_fetch parse pw raw =
    (case normalizeTarget parse raw of
       None \<Rightarrow> \<lparr> code = 400, content = JsonError ''Invalid or missing url'' \<rparr>
     | Some target \<Rightarrow>
        if target = [] then \<lparr> code = 400, content = JsonError ''Invalid or missing url'' \<rparr>
        else
          (case fetchWithPlaywright pw target \<lparr> opt_timeout = Some 25000, opt_headless = Some True \<rparr> of
             Inl err \<Rightarrow> \<lparr> code = 500, content = JsonError (err_toString err) \<rparr>
           | Inr result \<Rightarrow>
              if r_verification_required result then
                \<lparr> code = 200,
                  content = JsonVerification verification_message target (r_screenshot result) \<rparr>
              else
                \<lparr> code = 200,
                  content = JsonSuccess (r_status result) (r_headers result) (r_html result)
                              (r_textSample result) \<rparr>))"

section \<open>A sample browser and a sample parser\<close>

text \<open>
  A browser that cannot navigate to a target without the prefix \<open>http\<close> and otherwise
  renders one page, answered with status 200 and a \<open>content-type\<close> header; and a parser that
  accepts the strings that begin with \<open>http://\<close>, \<open>https://\<close> or \<open>ftp://\<close>. They give the
  theorems below concrete inputs.
\<close>

definition sample_goto :: "string \<Rightarrow> string \<Rightarrow> nat option \<Rightarrow> error + response option" where
  "sample_goto target waitUntil timeout =
    (if startsWith target ''http'' then
       Inr (Some \<lparr> resp_status = 200, resp_headers = [''content-type'' \<mapsto> ''text/html''] \<rparr>)
     else Inl (Thrown ''Cannot navigate to invalid URL''))"

definition sample_open :: "bool \<Rightarrow> error + unit" where
  "sample_open headless = Inr ()"

definition sample_wait :: "nat \<Rightarrow> error + unit" where
  "sample_wait ms = Inr ()"

definition sample_browser :: playwright where
  "sample_browser =
    \<lparr> pw_open = sample_open,
      pw_goto = sample_goto,
      pw_waitForTimeout = sample_wait,
      pw_content = Inr ''<html><body>Welcome to our site</body></html>'',
      pw_innerText = Inr (Some ''Welcome to our site''),
      pw_screenshot = Inr ''iVBORw0KGgo='',
      pw_close = Inr () \<rparr>"

definition sample_parse :: "string \<Rightarrow> url option" where
  "sample_parse s =
    (if startsWith s ''http://'' then Some \<lparr> protocol = ''http:'', href = s \<rparr>
     else if startsWith s ''https://'' then Some \<lparr> protocol = ''https:'', href = s \<rparr>
     else if startsWith s ''ftp://'' then Some \<lparr> protocol = ''ftp:'', href = s \<rparr>
     else None)"

definition ftp_url :: url where
  "ftp_url = \<lparr> protocol = ''ftp:'', href = ''ftp://example.com/file'' \<rparr>"

definition sample_opts :: fetch_opts where
  "sample_opts = \<lparr> opt_timeout = Some 25000, opt_headless = Some True \<rparr>"

definition empty_cf_ray :: "string \<rightharpoonup> string" where
  "empty_cf_ray = [''cf-ray'' \<mapsto> []]"

definition empty_cf_chl_bypass :: "string \<rightharpoonup> string" where
  "empty_cf_chl_bypass = [''cf-chl-bypass'' \<mapsto> []]"

definition capital_server :: "string \<rightharpoonup> string" where
  "capital_server = [''Server'' \<mapsto> ''cloudflare'']"

definition cloudflare_server :: "string \<rightharpoonup> string" where
  "cloudflare_server = [''server'' \<mapsto> ''CloudFlare-nginx'']"

definition ray_header :: "string \<rightharpoonup> string" where
  "ray_header = [''cf-ray'' \<mapsto> ''abc123'']"

definition plain_headers :: "string \<rightharpoonup> string" where
  "plain_headers = [''server'' \<mapsto> ''nginx'', ''content-type'' \<mapsto> ''text/html'']"

definition no_headers :: "string \<rightharpoonup> string" where
  "no_headers = Map.empty"

definition sample_result :: fetch_result where
  "sample_result =
    \<lparr> r_ok = True,
      r_verification_required = False,
      r_status = Some 200,
      r_headers = [''content-type'' \<mapsto> ''text/html''],
      r_html = ''<html><body>Welcome to our site</body></html>'',
      r_textSample = ''Welcome to our site'',
      r_screenshot = ''iVBORw0KGgo='' \<rparr>"

section \<open>Substring search and lower-casing\<close>

lemma startsWith_iff: "startsWith s p \<longleftrightarrow> (\<exists>b. s = p @ b)"
  by (induction s p rule: startsWith.induct) auto

lemma str_includes_iff: "str_includes s p \<longleftrightarrow> (\<exists>a b. s = a @ p @ b)"
proof (induction s)
  case Nil
  then show ?case by auto
next
  case (Cons c cs)
  show ?case
  proof
    assume "str_includes (c # cs) p"
    then consider "startsWith (c # cs) p" | "str_includes cs p" by auto
    then show "\<exists>a b. c # cs = a @ p @ b"
    proof cases
      case 1
      then obtain b where "c # cs = p @ b" using startsWith_iff by blast
      then have "c # cs = [] @ p @ b" by simp
      then show ?thesis by blast
    next
      case 2
      then obtain a b where "cs = a @ p @ b" using Cons.IH by blast
      then have "c # cs = (c # a) @ p @ b" by simp
      then show ?thesis by blast
    qed
  next
    assume "\<exists>a b. c # cs = a @ p @ b"
    then obtain a b where ab: "c # cs = a @ p @ b" by blast
    show "str_includes (c # cs) p"
    proof (cases a)
      case Nil
      then have "startsWith (c # cs) p" using ab startsWith_iff by auto
      then show ?thesis by simp
    next
      case (Cons x a')
      then have "cs = a' @ p @ b" using ab by simp
      then have "str_includes cs p" using Cons.IH by blast
      then show ?thesis by simp
    qed
  qed
qed

lemma str_includes_embedded: "str_includes s p \<Longrightarrow> str_includes (a @ s @ b) p"
proof -
  assume "str_includes s p"
  then obtain x y where "s = x @ p @ y" using str_includes_iff by blast
  then have "a @ s @ b = (a @ x) @ p @ (y @ b)" by simp
  then show ?thesis using str_includes_iff by blast
qed

lemma match_any_iff: "match_any s ps \<longleftrightarrow> (\<exists>p\<in>set ps. str_includes s p)"
  by (induction ps) auto

lemma toLowerCase_Nil: "toLowerCase [] = []"
  by (simp add: toLowerCase_def)

lemma toLowerCase_append: "toLowerCase (t @ u) = toLowerCase t @ toLowerCase u"
  by (simp add: toLowerCase_def)

lemma match_any_embedded:
  assumes "match_any (toLowerCase t) ps"
  shows "match_any (toLowerCase (u @ t @ w)) ps"
proof -
  obtain p where p: "p \<in> set ps" "str_includes (toLowerCase t) p"
    using assms match_any_iff by blast
  have "str_includes (toLowerCase u @ toLowerCase t @ toLowerCase w) p"
    using p(2) by (rule str_includes_embedded)
  then show ?thesis using p(1) match_any_iff toLowerCase_append by metis
qed

section \<open>The sample\<close>

lemma sample_of_string: "js_toLowerCase (js_or (JStr t) (JStr [])) = Inr (toLowerCase t)"
  by (simp add: js_or_def toLowerCase_Nil)

lemma sample_of_text: "is_text text \<Longrightarrow> \<exists>s. js_toLowerCase (js_or text (JStr [])) = Inr s"
  by (cases "text") (auto simp: js_or_def)

lemma classifier_on_string:
  "isVerificationText (JStr t) status headers =
     (if status = JNum 403 \<or> status = JNum 503 then Inr True
      else if match_any (toLowerCase t) patterns then Inr True
      else header_hints headers)"
  by (simp add: isVerificationText_def sample_of_string)

section \<open>Header hints on string-valued headers\<close>

lemma header_hints_typed:
  "header_hints (headers_of m) =
     Inr ((case m ''server'' of None \<Rightarrow> False | Some v \<Rightarrow> str_includes (toLowerCase v) ''cloudflare'')
          \<or> nonempty_header m ''cf-ray'' \<or> nonempty_header m ''cf-chl-bypass'')"
  by (cases "m ''server''"; cases "m ''cf-ray''"; cases "m ''cf-chl-bypass''")
    (auto simp: header_hints_def js_or_def headers_of_def nonempty_header_def toLowerCase_Nil)

lemmas eval_defs = toLowerCase_def lower_char_def upper_letters_def lower_letters_def
  isVerificationText_def header_hints_def patterns_def js_or_def headers_of_def nonempty_header_def

section \<open>The header conditions\<close>

text \<open>
  C1, as stated, fails: a \<open>cf-ray\<close> header whose value is the empty string is present, yet
  the classifier answers \<open>false\<close> on the text \<open>hello\<close> with status 200, because the code
  tests the value for truthiness and the empty string is falsy.
\<close>

theorem cf_ray_empty_value_false:
  "isVerificationText (JStr ''hello'') (JNum 200) (headers_of empty_cf_ray) = Inr False"
  by (simp add: eval_defs empty_cf_ray_def)

text \<open>
  C1, amended: for every headers mapping in which \<open>cf-ray\<close> or \<open>cf-chl-bypass\<close> is present
  with a non-empty string value, and for every text string and status, the classifier
  returns \<open>true\<close>.
\<close>

theorem cf_header_nonempty_true:
  assumes "nonempty_header m ''cf-ray'' \<or> nonempty_header m ''cf-chl-bypass''"
  shows "isVerificationText (JStr t) status (headers_of m) = Inr True"
  using assms by (simp add: classifier_on_string header_hints_typed)

theorem cf_header_nonempty_true_witness:
  "nonempty_header ray_header ''cf-ray''
   \<and> isVerificationText (JStr ''hello'') (JNum 200) (headers_of ray_header) = Inr True"
  using cf_header_nonempty_true [of ray_header "''hello''" "JNum 200"]
  by (simp add: nonempty_header_def ray_header_def)

text \<open>
  C2, as stated, fails: the code reads the property \<open>server\<close> by its exact name, so a header
  stored under the key \<open>Server\<close> is not found and the classifier answers \<open>false\<close>.
\<close>

theorem capital_server_key_false:
  "isVerificationText (JStr ''hello'') (JNum 200) (headers_of capital_server) = Inr False"
  by (simp add: eval_defs capital_server_def)

text \<open>
  C2, amended: for every headers mapping that holds, under the lower-case key \<open>server\<close>, a
  value that contains \<open>cloudflare\<close> in any letter case, and for every text string and status,
  the classifier returns \<open>true\<close>.
\<close>

theorem server_cloudflare_true:
  assumes "m ''server'' = Some v" and "str_includes (toLowerCase v) ''cloudflare''"
  shows "isVerificationText (JStr t) status (headers_of m) = Inr True"
  using assms by (simp add: classifier_on_string header_hints_typed)

theorem server_cloudflare_true_witness:
  "cloudflare_server ''server'' = Some ''CloudFlare-nginx''
   \<and> str_includes (toLowerCase ''CloudFlare-nginx'') ''cloudflare''
   \<and> isVerificationText (JStr ''hello'') (JNum 200) (headers_of cloudflare_server) = Inr True"
  using server_cloudflare_true [of cloudflare_server "''CloudFlare-nginx''" "''hello''" "JNum 200"]
  by (simp add: cloudflare_server_def toLowerCase_def lower_char_def upper_letters_def
      lower_letters_def)

section \<open>Failure\<close>

text \<open>
  C3, as stated, fails: a text that is the number 5 has no \<open>toLowerCase\<close> method, and a
  \<open>null\<close> headers argument has no properties to read; both calls throw a TypeError.
\<close>

theorem malformed_input_raises:
  "isVerificationText (JNum 5) (JNum 200) (headers_of no_headers) = Inl TypeError
   \<and> isVerificationText (JStr ''hello'') (JNum 200) JNull = Inl TypeError"
  by (simp add: eval_defs no_headers_def)

text \<open>
  C3, amended: for every text that is a string or absent (\<open>undefined\<close> or \<open>null\<close>, treated
  as the empty string), every status and every headers mapping from names to strings, the
  classifier returns a boolean and raises no error.
\<close>

theorem classifier_returns_boolean:
  assumes "is_text text"
  shows "isVerificationText text status (headers_of m) \<in> {Inr True, Inr False}"
proof -
  obtain s where "js_toLowerCase (js_or text (JStr [])) = Inr s"
    using sample_of_text [OF assms] by blast
  then show ?thesis by (auto simp: isVerificationText_def header_hints_typed)
qed

theorem classifier_returns_boolean_witness:
  "is_text JUndefined
   \<and> isVerificationText JUndefined JNull (headers_of plain_headers) \<in> {Inr True, Inr False}"
  using classifier_returns_boolean [of JUndefined JNull plain_headers] by simp

section \<open>The verdicts\<close>

text \<open>
  C4: when the status is neither 403 nor 503 (any other value, or absent), the lower-cased
  text contains none of the ten substrings, the \<open>server\<close> value, lower-cased as the
  classifier reads it, does not contain \<open>cloudflare\<close>, and neither \<open>cf-ray\<close> nor
  \<open>cf-chl-bypass\<close> is present, the classifier returns \<open>false\<close>.
\<close>

theorem no_signal_false:
  assumes "status \<noteq> JNum 403" and "status \<noteq> JNum 503"
    and "\<forall>p \<in> set patterns. \<not> str_includes (toLowerCase t) p"
    and "\<forall>v. m ''server'' = Some v \<longrightarrow> \<not> str_includes (toLowerCase v) ''cloudflare''"
    and "m ''cf-ray'' = None" and "m ''cf-chl-bypass'' = None"
  shows "isVerificationText (JStr t) status (headers_of m) = Inr False"
proof -
  have "\<not> match_any (toLowerCase t) patterns" using assms(3) match_any_iff by blast
  moreover have "header_hints (headers_of m) = Inr False"
    using assms(4,5,6) by (auto simp: header_hints_typed nonempty_header_def split: option.splits)
  ultimately show ?thesis using assms(1,2) by (simp add: classifier_on_string)
qed

theorem no_signal_false_witness:
  "plain_headers ''server'' = Some ''nginx''
   \<and> plain_headers ''cf-ray'' = None \<and> plain_headers ''cf-chl-bypass'' = None
   \<and> isVerificationText (JStr ''Welcome to our site'') (JNum 200) (headers_of plain_headers) = Inr False"
  using no_signal_false [of "JNum 200" "''Welcome to our site''" plain_headers]
  by (simp add: plain_headers_def patterns_def toLowerCase_def lower_char_def upper_letters_def
      lower_letters_def)

text \<open>
  C6, as stated, fails: the sample is computed from the text before the status is tested,
  so with the number 5 as text the call throws a TypeError even though the status is 403.
\<close>

theorem number_text_raises_at_403:
  "isVerificationText (JNum 5) (JNum 403) (headers_of no_headers) = Inl TypeError"
  by (simp add: isVerificationText_def js_or_def)

text \<open>
  C6, amended: when the status is 403 or 503 and the text is a string or absent
  (\<open>undefined\<close> or \<open>null\<close>), the classifier returns \<open>true\<close>, regardless of the content of the
  text and for every headers argument whatsoever, \<open>null\<close> included: the headers are never
  read.
\<close>

theorem status_403_503_true:
  assumes "status = JNum 403 \<or> status = JNum 503" and "is_text text"
  shows "isVerificationText text status headers = Inr True"
proof -
  obtain s where "js_toLowerCase (js_or text (JStr [])) = Inr s"
    using sample_of_text [OF assms(2)] by blast
  then show ?thesis using assms(1) by (auto simp: isVerificationText_def)
qed

theorem status_403_503_true_witness:
  "is_text (JStr []) \<and> isVerificationText (JStr []) (JNum 503) (headers_of no_headers) = Inr True
   \<and> is_text JUndefined \<and> isVerificationText JUndefined (JNum 403) JNull = Inr True"
  using status_403_503_true [of "JNum 503" "JStr []" "headers_of no_headers"]
    status_403_503_true [of "JNum 403" JUndefined JNull]
  by simp

text \<open>
  C7: when the lower-cased text contains one of the ten substrings, at any position and
  with anything before and after it, the classifier returns \<open>true\<close> for every status and
  every headers argument.
\<close>

theorem text_pattern_true:
  assumes "p \<in> set patterns" and "toLowerCase t = a @ p @ b"
  shows "isVerificationText (JStr t) status headers = Inr True"
proof -
  have "str_includes (toLowerCase t) p" using assms(2) str_includes_iff by blast
  then have "match_any (toLowerCase t) patterns" using assms(1) match_any_iff by blast
  then show ?thesis by (simp add: classifier_on_string)
qed

theorem text_pattern_true_witness:
  "''captcha'' \<in> set patterns
   \<and> toLowerCase ''Please complete the reCAPTCHAs to continue''
       = ''please complete the re'' @ ''captcha'' @ ''s to continue''
   \<and> isVerificationText (JStr ''Please complete the reCAPTCHAs to continue'') (JNum 200) JNull
       = Inr True"
  using text_pattern_true [of "''captcha''" "''Please complete the reCAPTCHAs to continue''"
      "''please complete the re''" "''s to continue''" "JNum 200" JNull]
  by (simp add: toLowerCase_def lower_char_def upper_letters_def lower_letters_def patterns_def)

section \<open>The classifier as a disjunction\<close>

text \<open>
  C8, as stated, fails: with a \<open>cf-chl-bypass\<close> header whose value is the empty string the
  disjunction of the four conditions, the fourth being presence, is true, and the
  classifier answers \<open>false\<close>.
\<close>

theorem present_is_not_truthy:
  "isVerificationText (JStr ''hello'') (JNum 200) (headers_of empty_cf_chl_bypass)
     \<noteq> Inr (spec_disjunction ''hello'' (JNum 200) empty_cf_chl_bypass)"
  by (simp add: eval_defs spec_disjunction_def empty_cf_chl_bypass_def)

text \<open>
  C8, amended: on every text string, status and headers mapping from names to strings, the
  ordered, short-circuiting evaluation equals the disjunction of: the status is 403 or
  503; the lower-cased text contains one of the fixed substrings; the lower-cased \<open>server\<close>
  value contains \<open>cloudflare\<close>; a \<open>cf-ray\<close> or \<open>cf-chl-bypass\<close> header is present with a
  non-empty value.
\<close>

theorem short_circuit_is_disjunction:
  "isVerificationText (JStr t) status (headers_of m) = Inr (truthy_disjunction t status m)"
  by (simp add: classifier_on_string header_hints_typed truthy_disjunction_def match_any_iff)

theorem short_circuit_is_disjunction_witness:
  "isVerificationText (JStr ''hello'') (JNum 200) (headers_of cloudflare_server)
     = Inr (truthy_disjunction ''hello'' (JNum 200) cloudflare_server)
   \<and> truthy_disjunction ''hello'' (JNum 200) cloudflare_server"
  using short_circuit_is_disjunction [of "''hello''" "JNum 200" cloudflare_server]
  by (simp add: truthy_disjunction_def cloudflare_server_def toLowerCase_def lower_char_def
      upper_letters_def lower_letters_def)

text \<open>
  C10: a verdict \<open>true\<close> on a text \<open>t\<close> stays \<open>true\<close> when any string is appended or
  prepended to \<open>t\<close>, for every status and every headers argument.
\<close>

theorem text_monotone:
  assumes "isVerificationText (JStr t) status headers = Inr True"
  shows "isVerificationText (JStr (t @ u)) status headers = Inr True
       \<and> isVerificationText (JStr (u @ t)) status headers = Inr True"
proof (cases "status = JNum 403 \<or> status = JNum 503")
  case True
  then show ?thesis by (simp add: classifier_on_string)
next
  case no_status: False
  show ?thesis
  proof (cases "match_any (toLowerCase t) patterns")
    case True
    have "match_any (toLowerCase ([] @ t @ u)) patterns"
      using True by (rule match_any_embedded)
    moreover have "match_any (toLowerCase (u @ t @ [])) patterns"
      using True by (rule match_any_embedded)
    ultimately show ?thesis by (simp add: classifier_on_string)
  next
    case False
    then have "header_hints headers = Inr True"
      using assms no_status by (simp add: classifier_on_string)
    then show ?thesis by (simp add: classifier_on_string)
  qed
qed

theorem text_monotone_witness:
  "isVerificationText (JStr ''captcha'') (JNum 200) (headers_of no_headers) = Inr True
   \<and> isVerificationText (JStr (''captcha'' @ ''xyz'')) (JNum 200) (headers_of no_headers) = Inr True
   \<and> isVerificationText (JStr (''xyz'' @ ''captcha'')) (JNum 200) (headers_of no_headers) = Inr True"
proof -
  have h: "isVerificationText (JStr ''captcha'') (JNum 200) (headers_of no_headers) = Inr True"
    by (simp add: eval_defs)
  show ?thesis using h text_monotone [OF h, of "''xyz''"] by simp
qed

section \<open>The fetch result\<close>

text \<open>
  The classifier is never the call that fails: when every browser call succeeds, the fetch
  returns a result.
\<close>

lemma fetch_returns:
  assumes "pw_open pw (case opt_headless opts of None \<Rightarrow> True | Some b \<Rightarrow> b) = Inr ()"
    and "pw_goto pw target ''networkidle''
           (Some (case opt_timeout opts of None \<Rightarrow> DEFAULT_TIMEOUT
                  | Some n \<Rightarrow> if n = 0 then DEFAULT_TIMEOUT else n)) = Inr response"
    and "pw_waitForTimeout pw 800 = Inr ()"
    and "pw_content pw = Inr html"
    and "pw_innerText pw = Inr body"
    and "pw_screenshot pw = Inr shot"
    and "pw_close pw = Inr ()"
  shows "\<exists>r. fetchWithPlaywright pw target opts = Inr r \<and> r_html r = html \<and> r_screenshot r = shot"
  using assms
  by (simp add: fetchWithPlaywright_def await_def Let_def classifier_on_string header_hints_typed)

text \<open>
  C9: in every result that \<open>fetchWithPlaywright\<close> returns, the field \<open>ok\<close> is the negation of
  the field \<open>verification_required\<close>.
\<close>

theorem fetch_ok_negates_verification:
  assumes "fetchWithPlaywright pw target opts = Inr r"
  shows "r_ok r = (\<not> r_verification_required r)"
  using assms
  by (auto simp: fetchWithPlaywright_def await_def Let_def split: sum.splits)

theorem fetch_ok_negates_verification_witness:
  "fetchWithPlaywright sample_browser ''http://example.com'' sample_opts = Inr sample_result
   \<and> r_ok sample_result = (\<not> r_verification_required sample_result)"
proof -
  have h: "fetchWithPlaywright sample_browser ''http://example.com'' sample_opts = Inr sample_result"
    by (simp add: fetchWithPlaywright_def await_def sample_browser_def sample_opts_def
        sample_goto_def sample_open_def sample_wait_def sample_result_def eval_defs)
  show ?thesis using h fetch_ok_negates_verification [OF h] by simp
qed

section \<open>The replies to a missing or malformed url\<close>

text \<open>
  The route \<open>/index\<close> hands every non-empty \<open>url\<close> to the browser and answers 200 or 500,
  whatever the browser does; a missing \<open>url\<close> is rejected by \<open>normalizeTarget\<close> as soon as the
  parser rejects the string \<open>undefined\<close>; the route \<open>/\<close> answers a missing \<open>url\<close> with the
  default status 200.
\<close>

lemma route_index_nonempty_url:
  "u \<noteq> [] \<Longrightarrow> code (route_index pw (Some u)) = 200 \<or> code (route_index pw (Some u)) = 500"
  by (simp add: route_index_def split: sum.splits)

lemma normalizeTarget_missing:
  "parse ''undefined'' = None \<Longrightarrow> normalizeTarget parse None = None"
  by (simp add: normalizeTarget_def)

lemma route_root_missing_url: "code (route_root pw None) = 200"
  by (simp add: route_root_def)

text \<open>
  C5, as stated, fails: the route \<open>/index\<close> does not validate the \<open>url\<close> parameter, so the
  malformed value \<open>not a url\<close> reaches the browser, the navigation throws and the reply has
  status 500.
\<close>

theorem index_malformed_url_500:
  "code (route_index sample_browser (Some ''not a url'')) = 500"
  by (simp add: route_index_def await_def sample_browser_def sample_goto_def sample_open_def)

text \<open>
  C5, amended: the route \<open>/index\<close> answers a missing or empty \<open>url\<close> parameter with status
  400, and the route \<open>/api/fetch.js\<close> answers with status 400 every request whose \<open>url\<close>
  parameter is missing while the URL parser rejects the string \<open>undefined\<close> that stands for
  it, or is a string that the URL parser rejects, or is a string that parses to a URL of a
  protocol other than \<open>http:\<close> and \<open>https:\<close>.
\<close>

theorem missing_or_rejected_url_400:
  "code (route_index pw None) = 400
   \<and> code (route_index pw (Some [])) = 400
   \<and> (parse ''undefined'' = None \<longrightarrow> code (route_api_fetch parse pw None) = 400)
   \<and> (parse bad = None \<longrightarrow> code (route_api_fetch parse pw (Some bad)) = 400)
   \<and> (parse other = Some u \<and> protocol u \<noteq> ''http:'' \<and> protocol u \<noteq> ''https:''
        \<longrightarrow> code (route_api_fetch parse pw (Some other)) = 400)"
  by (simp add: route_index_def route_api_fetch_def normalizeTarget_def)

theorem missing_or_rejected_url_400_witness:
  "code (route_index sample_browser None) = 400
   \<and> code (route_index sample_browser (Some [])) = 400
   \<and> sample_parse ''undefined'' = None
   \<and> code (route_api_fetch sample_parse sample_browser None) = 400
   \<and> sample_parse ''not a url'' = None
   \<and> code (route_api_fetch sample_parse sample_browser (Some ''not a url'')) = 400
   \<and> sample_parse ''ftp://example.com/file'' = Some ftp_url
   \<and> code (route_api_fetch sample_parse sample_browser (Some ''ftp://example.com/file'')) = 400"
  using missing_or_rejected_url_400 [of sample_browser sample_parse "''not a url''"
      "''ftp://example.com/file''" ftp_url]
  by (simp add: sample_parse_def ftp_url_def)

end
